theory Spec2Isabelle
  imports Complex_Main "HOL-Library.Word"
begin

unbundle bit_operations_syntax

section \<open>Value types of the binding layer\<close>

text \<open>
  The binding layer (\<^verbatim>\<open>sdks/python/goud_engine/bindings.py\<close>) declares its value types
  as ctypes structures whose fields are \<^verbatim>\<open>c_float\<close>. Reading a field yields a Python
  float. The vector arithmetic of \<^verbatim>\<open>Vec2\<close>, the colour channels of a sprite and the
  frame clock are modelled over \<^typ>\<open>real\<close>: there the rounding of binary floating
  point is not part of the model. Where a result is a comparison against a rounded sum
  or depends on an argument narrowed to single precision (containment, the collision
  query, the rotation of a transform), the numbers are IEEE values, rounded as the code
  rounds them. Handles are 64-bit words, as \<^verbatim>\<open>c_uint64\<close> is.
\<close>

datatype py_error = GoudEngineError | ZeroDivisionError | ValueError | OverflowError | MemoryError

datatype 'a Vec2 = Vec2 (x: 'a) (y: 'a)

datatype 'a Rect = Rect (x: 'a) (y: 'a) (width: 'a) (height: 'a)

text \<open>\<^verbatim>\<open>Vec2.__truediv__\<close>: Python's float division raises on a zero divisor.\<close>

definition truediv :: "real Vec2 \<Rightarrow> real \<Rightarrow> py_error + real Vec2" where
  "truediv v scalar =
     (if scalar = 0 then Inl ZeroDivisionError
      else Inr (Vec2 (Vec2.x v / scalar) (Vec2.y v / scalar)))"

text \<open>\<^verbatim>\<open>Vec2.length\<close>: \<^verbatim>\<open>(self.x ** 2 + self.y ** 2) ** 0.5\<close>.\<close>

definition length_Vec2 :: "real Vec2 \<Rightarrow> real" where
  "length_Vec2 v = sqrt ((Vec2.x v)\<^sup>2 + (Vec2.y v)\<^sup>2)"

text \<open>\<^verbatim>\<open>Vec2.normalize\<close>: the zero length is tested before the division.\<close>

definition normalize_Vec2 :: "real Vec2 \<Rightarrow> py_error + real Vec2" where
  "normalize_Vec2 v =
     (let length = length_Vec2 v
      in if length = 0 then Inr (Vec2 0 0) else truediv v length)"

section \<open>Floating point\<close>

text \<open>
  A Python float is an IEEE binary64 value and a \<^verbatim>\<open>c_float\<close> an IEEE binary32 value:
  a finite number, an infinity or a NaN (the sign of a zero is not kept: no operation
  below tells the two zeros apart). Rounding is to nearest, ties to even, for a format
  of \<open>p\<close> significant bits and exponents from \<open>emin\<close> to \<open>emax\<close>: the unit in the
  last place is \<open>2 ^ (e - p + 1)\<close> for the exponent \<open>e\<close> of the number, held at
  \<open>emin\<close> in the subnormal range, and a rounded magnitude of \<open>2 ^ (emax + 1)\<close> or
  more is an infinity.
\<close>

datatype ieee = Finite real | PosInf | NegInf | NaN

definition round_even :: "real \<Rightarrow> int" where
  "round_even q =
     (let f = \<lfloor>q\<rfloor>; d = q - of_int f
      in if d < 1 / 2 then f else if 1 / 2 < d then f + 1 else if even f then f else f + 1)"

definition round_nearest :: "nat \<Rightarrow> int \<Rightarrow> int \<Rightarrow> real \<Rightarrow> ieee" where
  "round_nearest p emin emax v =
     (if v = 0 then Finite 0
      else
        let e = max \<lfloor>log 2 \<bar>v\<bar>\<rfloor> emin;
            ulp = 2 powi (e - int p + 1);
            q = of_int (round_even (v / ulp)) * ulp
        in if 2 powi (emax + 1) \<le> \<bar>q\<bar> then (if v < 0 then NegInf else PosInf) else Finite q)"

definition binary32 :: "real \<Rightarrow> ieee" where
  "binary32 = round_nearest 24 (- 126) 127"

definition binary64 :: "real \<Rightarrow> ieee" where
  "binary64 = round_nearest 53 (- 1022) 1023"

text \<open>
  \<^verbatim>\<open>c_float(v)\<close>, and the assignment of a Python float to a \<^verbatim>\<open>c_float\<close> field: the
  value is narrowed to single precision; infinities and NaN stay.
\<close>

fun c_float :: "ieee \<Rightarrow> ieee" where
  "c_float (Finite v) = binary32 v"
| "c_float PosInf = PosInf"
| "c_float NegInf = NegInf"
| "c_float NaN = NaN"

text \<open>Python's \<^verbatim>\<open>+\<close>, \<^verbatim>\<open><\<close> and \<^verbatim>\<open><=\<close> on floats.\<close>

fun float_add :: "ieee \<Rightarrow> ieee \<Rightarrow> ieee" where
  "float_add (Finite a) (Finite b) = binary64 (a + b)"
| "float_add NaN _ = NaN"
| "float_add _ NaN = NaN"
| "float_add PosInf NegInf = NaN"
| "float_add NegInf PosInf = NaN"
| "float_add PosInf _ = PosInf"
| "float_add _ PosInf = PosInf"
| "float_add NegInf _ = NegInf"
| "float_add _ NegInf = NegInf"

fun float_lt :: "ieee \<Rightarrow> ieee \<Rightarrow> bool" where
  "float_lt (Finite a) (Finite b) = (a < b)"
| "float_lt NaN _ = False"
| "float_lt _ NaN = False"
| "float_lt _ NegInf = False"
| "float_lt PosInf _ = False"
| "float_lt NegInf _ = True"
| "float_lt _ PosInf = True"

fun float_le :: "ieee \<Rightarrow> ieee \<Rightarrow> bool" where
  "float_le (Finite a) (Finite b) = (a \<le> b)"
| "float_le NaN _ = False"
| "float_le _ NaN = False"
| "float_le NegInf _ = True"
| "float_le _ PosInf = True"
| "float_le _ NegInf = False"
| "float_le PosInf _ = False"

text \<open>
  The comparison of the test suite, \<^verbatim>\<open>abs(value - expected) < tolerance\<close>, which is
  false for an infinity and for NaN.
\<close>

fun close_to :: "real \<Rightarrow> ieee \<Rightarrow> real \<Rightarrow> bool" where
  "close_to tol (Finite u) v = (\<bar>u - v\<bar> < tol)"
| "close_to tol _ v = False"

section \<open>Rect\<close>

text \<open>
  \<^verbatim>\<open>Vec2.__init__\<close> and \<^verbatim>\<open>Rect.__init__\<close> store their arguments in \<^verbatim>\<open>c_float\<close>
  fields.
\<close>

definition init_Vec2 :: "ieee \<Rightarrow> ieee \<Rightarrow> ieee Vec2" where
  "init_Vec2 vx vy = Vec2 (c_float vx) (c_float vy)"

definition init_Rect :: "ieee \<Rightarrow> ieee \<Rightarrow> ieee \<Rightarrow> ieee \<Rightarrow> ieee Rect" where
  "init_Rect rx ry rw rh = Rect (c_float rx) (c_float ry) (c_float rw) (c_float rh)"

text \<open>
  \<^verbatim>\<open>Rect.contains\<close>: two chained comparisons joined by \<^verbatim>\<open>and\<close>; the fields are read
  as Python floats and the two sums are Python float sums.
\<close>

definition contains :: "ieee Rect \<Rightarrow> ieee Vec2 \<Rightarrow> bool" where
  "contains r point \<longleftrightarrow>
     (float_le (Rect.x r) (Vec2.x point) \<and>
      float_lt (Vec2.x point) (float_add (Rect.x r) (width r))) \<and>
     (float_le (Rect.y r) (Vec2.y point) \<and>
      float_lt (Vec2.y point) (float_add (Rect.y r) (height r)))"

section \<open>Context lifecycle\<close>

text \<open>
  The native library is reached through ctypes. Calls whose effect lives on the native
  side are recorded, in order, in a trace of FFI calls; a release action is an entry
  \<open>goud_context_destroy\<close> of that trace, and the rendering calls of a frame are
  entries of it too.
\<close>

datatype ffi_call =
    goud_context_destroy "64 word"
  | goud_window_clear "64 word" real real real real
  | goud_renderer_begin "64 word"
  | goud_renderer_end "64 word"
  | goud_window_swap_buffers "64 word"

text \<open>\<^verbatim>\<open>GoudContextId\<close>: the sentinel and its test.\<close>

definition invalid :: "64 word" where
  "invalid = 0xFFFFFFFFFFFFFFFF"

definition is_invalid :: "64 word \<Rightarrow> bool" where
  "is_invalid bits \<longleftrightarrow> bits = 0xFFFFFFFFFFFFFFFF"

text \<open>\<^verbatim>\<open>GoudContext\<close>: the attributes \<^verbatim>\<open>_id\<close> and \<^verbatim>\<open>_destroyed\<close>.\<close>

record GoudContext =
  context_id :: "64 word"
  destroyed :: bool

text \<open>\<^verbatim>\<open>GoudContext.__init__\<close>.\<close>

definition init_GoudContext :: "64 word \<Rightarrow> GoudContext" where
  "init_GoudContext cid = \<lparr>context_id = cid, destroyed = False\<rparr>"

text \<open>
  \<^verbatim>\<open>GoudContext.create\<close>; the argument is what \<^verbatim>\<open>goud_context_create\<close> returned.
\<close>

definition create :: "64 word \<Rightarrow> py_error + GoudContext" where
  "create ctx_id = (if is_invalid ctx_id then Inl GoudEngineError else Inr (init_GoudContext ctx_id))"

text \<open>
  \<^verbatim>\<open>GoudContext.is_valid\<close>; the first argument is the native
  \<^verbatim>\<open>goud_context_is_valid\<close>, asked only when the wrapper is not destroyed.
\<close>

definition is_valid :: "(64 word \<Rightarrow> bool) \<Rightarrow> GoudContext \<Rightarrow> bool" where
  "is_valid goud_context_is_valid self =
     (if destroyed self then False else goud_context_is_valid (context_id self))"

text \<open>\<^verbatim>\<open>GoudContext.destroy\<close>: the native release, then the flag.\<close>

definition destroy :: "GoudContext \<times> ffi_call list \<Rightarrow> GoudContext \<times> ffi_call list" where
  "destroy = (\<lambda>(self, calls).
     if \<not> destroyed self
     then (self\<lparr>destroyed := True\<rparr>, calls @ [goud_context_destroy (context_id self)])
     else (self, calls))"

text \<open>
  The context-manager protocol. \<^verbatim>\<open>__enter__\<close> returns the context itself;
  \<^verbatim>\<open>__exit__\<close> ignores the exception triple, calls \<^verbatim>\<open>destroy\<close> and returns \<^verbatim>\<open>None\<close>,
  so it never suppresses an exception (the first component of the result).
\<close>

datatype 'a block_exit = Completed | Returned 'a | Raised py_error

definition enter :: "GoudContext \<Rightarrow> GoudContext" where
  "enter self = self"

definition exit_GoudContext ::
  "'a block_exit \<Rightarrow> GoudContext \<times> ffi_call list \<Rightarrow> bool \<times> GoudContext \<times> ffi_call list" where
  "exit_GoudContext exc st = (False, destroy st)"

text \<open>
  Python's \<^verbatim>\<open>with mgr as ctx: body\<close>: the body runs on what \<^verbatim>\<open>__enter__\<close> returned and
  leaves by completing, by \<^verbatim>\<open>return\<close> or by raising; \<^verbatim>\<open>__exit__\<close> runs on each of
  these paths, and the way the block was left is kept unless \<^verbatim>\<open>__exit__\<close> returned a
  true value for a raised exception.
\<close>

definition with_block ::
  "(GoudContext \<times> ffi_call list \<Rightarrow> 'a block_exit \<times> GoudContext \<times> ffi_call list) \<Rightarrow>
   GoudContext \<times> ffi_call list \<Rightarrow> 'a block_exit \<times> GoudContext \<times> ffi_call list" where
  "with_block body = (\<lambda>(mgr, calls).
     let ctx = enter mgr;
         (how, st) = body (ctx, calls);
         (suppress, st') = exit_GoudContext how st
     in ((case how of
            Raised e \<Rightarrow> if suppress then Completed else Raised e
          | _ \<Rightarrow> how),
         st'))"

text \<open>
  A context is released in a trace when the trace holds the native destroy of its id;
  a wrapper is consistent with a trace when its flag is set only after that call.
\<close>

definition released :: "GoudContext \<times> ffi_call list \<Rightarrow> bool" where
  "released = (\<lambda>(self, calls). goud_context_destroy (context_id self) \<in> set calls)"

definition releases :: "64 word \<Rightarrow> ffi_call list \<Rightarrow> nat" where
  "releases cid calls = length (filter (\<lambda>c. c = goud_context_destroy cid) calls)"

section \<open>Entities\<close>

text \<open>
  \<^verbatim>\<open>GoudEntityId.INVALID\<close>, the all-ones handle.
\<close>

definition INVALID :: "64 word" where
  "INVALID = 0xFFFFFFFFFFFFFFFF"

text \<open>
  Modelled from the spec: the native entity allocator behind
  \<^verbatim>\<open>goud_entity_spawn_empty\<close> and \<^verbatim>\<open>goud_entity_spawn_batch\<close> (the Rust core is not part
  of the sources; only the ctypes declarations of the two functions are). The spec's
  data model: a dense slot table of liveness and generation, indexed by the 32-bit
  index of a handle; a handle packs index and generation into 64 bits (the layout is
  the one \<^verbatim>\<open>GoudContextId.__repr__\<close> decodes: index in the low half, generation in the
  high half); \<open>INVALID\<close> is the all-ones pattern and differs from every live handle,
  so the index \<open>0xFFFFFFFF\<close> is never allocated and the index space has
  \<open>2 ^ 32 - 1\<close> slots.
\<close>

record entity_table =
  generations :: "32 word list"
  alive :: "bool list"
  free_list :: "nat list"

definition index_space :: nat where
  "index_space = 2 ^ 32 - 1"

definition pack :: "nat \<Rightarrow> 32 word \<Rightarrow> 64 word" where
  "pack index generation = push_bit 32 (ucast generation) OR word_of_nat index"

text \<open>
  Modelled from the spec: \<open>spawn\<close> of section 4.1. It reuses a previously
  despawned slot when the free list has one, bumping that slot's generation;
  otherwise it grows the table by one slot at generation 0; it fails, returning
  \<open>INVALID\<close>, when the index space is exhausted.
\<close>

definition spawn :: "entity_table \<Rightarrow> 64 word \<times> entity_table" where
  "spawn t =
     (case free_list t of
        i # rest \<Rightarrow>
          let g = generations t ! i + 1
          in (pack i g,
              t\<lparr>generations := (generations t)[i := g],
                alive := (alive t)[i := True],
                free_list := rest\<rparr>)
      | [] \<Rightarrow>
          if length (generations t) < index_space
          then (pack (length (generations t)) 0,
                t\<lparr>generations := generations t @ [0], alive := alive t @ [True]\<rparr>)
          else (INVALID, t))"


text \<open>
  Modelled from the spec: the native side holds the live contexts, each with its
  entity table, under their ids. Section 4.2: after destroy a context is no longer
  valid, so \<^verbatim>\<open>goud_context_destroy\<close> removes the id. Section 7: a call given a context
  that is not live is a per-call failure, reported through the result of the call and
  never a fault; for the spawn that result is \<open>INVALID\<close>, for the batch spawn a count
  of 0 with nothing written.
\<close>

type_synonym contexts = "64 word \<Rightarrow> entity_table option"

fun native_effect :: "ffi_call \<Rightarrow> contexts \<Rightarrow> contexts" where
  "native_effect (goud_context_destroy cid) w = w(cid := None)"
| "native_effect _ w = w"

definition after_calls :: "ffi_call list \<Rightarrow> contexts \<Rightarrow> contexts" where
  "after_calls calls w = fold native_effect calls w"

definition goud_entity_spawn_empty :: "64 word \<Rightarrow> contexts \<Rightarrow> 64 word \<times> contexts" where
  "goud_entity_spawn_empty cid w =
     (case w cid of
        None \<Rightarrow> (INVALID, w)
      | Some t \<Rightarrow> (case spawn t of (h, t') \<Rightarrow> (h, w(cid \<mapsto> t'))))"


text \<open>
  \<^verbatim>\<open>GoudContext.spawn_entity\<close>: the native handle is compared with \<open>INVALID\<close> and
  the sentinel is turned into a raised \<^verbatim>\<open>GoudEngineError\<close>. The wrapper passes its id
  and does not look at its own \<^verbatim>\<open>_destroyed\<close> flag.
\<close>

definition spawn_entity :: "GoudContext \<Rightarrow> contexts \<Rightarrow> (py_error + 64 word) \<times> contexts" where
  "spawn_entity self w =
     (case goud_entity_spawn_empty (context_id self) w of
        (entity_id, w') \<Rightarrow>
          if entity_id = INVALID then (Inl GoudEngineError, w') else (Inr entity_id, w'))"





text \<open>
  The invariant of a table (every slot has its liveness bit, the table fits the
  index space, the free list names slots of the table), which the empty table has and
  every spawn keeps, and exhaustion: no free slot and no index left. A spawn on a
  context cannot succeed when the context is not live or its table is exhausted.
\<close>

definition wf_table :: "entity_table \<Rightarrow> bool" where
  "wf_table t \<longleftrightarrow>
     length (alive t) = length (generations t) \<and>
     length (generations t) \<le> index_space \<and>
     (\<forall>i \<in> set (free_list t). i < length (generations t))"

definition exhausted :: "entity_table \<Rightarrow> bool" where
  "exhausted t \<longleftrightarrow> free_list t = [] \<and> index_space \<le> length (generations t)"

definition wf_context :: "64 word \<Rightarrow> contexts \<Rightarrow> bool" where
  "wf_context cid w = (case w cid of None \<Rightarrow> True | Some t \<Rightarrow> wf_table t)"

definition spawn_fails :: "64 word \<Rightarrow> contexts \<Rightarrow> bool" where
  "spawn_fails cid w = (case w cid of None \<Rightarrow> True | Some t \<Rightarrow> exhausted t)"

definition empty_table :: entity_table where
  "empty_table = \<lparr>generations = [], alive = [], free_list = []\<rparr>"

definition full_table :: entity_table where
  "full_table =
     \<lparr>generations = replicate index_space 0, alive = replicate index_space True, free_list = []\<rparr>"

definition one_context :: "entity_table \<Rightarrow> contexts" where
  "one_context t = Map.empty(5 \<mapsto> t)"

section \<open>Collision query\<close>



section \<open>Transform2D\<close>

text \<open>
  \<^verbatim>\<open>FfiTransform2D\<close>, five \<^verbatim>\<open>c_float\<close> fields; a \<^verbatim>\<open>Transform2D\<close> object is a
  wrapper around one such structure.
\<close>

record FfiTransform2D =
  position_x :: ieee
  position_y :: ieee
  rotation :: ieee
  scale_x :: ieee
  scale_y :: ieee

text \<open>
  Modelled from the spec: the native \<^verbatim>\<open>goud_transform2d_from_rotation\<close> and
  \<^verbatim>\<open>goud_transform2d_forward\<close> (only their ctypes declarations are in the sources).
  The factory sets the rotation it is given and leaves position and scale at the
  defaults of \<^verbatim>\<open>Transform2D.__init__\<close> (origin, unit scale); the rotation convention of
  section 3 is \<open>forward = (cos \<theta>, sin \<theta>)\<close> for the stored rotation \<open>\<theta>\<close>. The
  result is a structure of two \<^verbatim>\<open>c_float\<close> fields, so the two numbers are held in
  single precision; of an infinite or NaN rotation the cosine and sine are NaN.
\<close>

definition goud_transform2d_from_rotation :: "ieee \<Rightarrow> FfiTransform2D" where
  "goud_transform2d_from_rotation radians =
     \<lparr>position_x = Finite 0, position_y = Finite 0, rotation = radians,
      scale_x = Finite 1, scale_y = Finite 1\<rparr>"

definition goud_transform2d_forward :: "FfiTransform2D \<Rightarrow> ieee Vec2" where
  "goud_transform2d_forward t =
     (case rotation t of
        Finite \<theta> \<Rightarrow> Vec2 (binary32 (cos \<theta>)) (binary32 (sin \<theta>))
      | _ \<Rightarrow> Vec2 NaN NaN)"

text \<open>
  \<^verbatim>\<open>Transform2D.from_rotation\<close>, which passes \<^verbatim>\<open>c_float(rotation)\<close>, and
  \<^verbatim>\<open>Transform2D.forward\<close>, which builds a \<^verbatim>\<open>Vec2\<close> from the two fields of the result.
\<close>

definition from_rotation :: "ieee \<Rightarrow> FfiTransform2D" where
  "from_rotation rot = (let ffi = goud_transform2d_from_rotation (c_float rot) in ffi)"

definition forward :: "FfiTransform2D \<Rightarrow> ieee Vec2" where
  "forward self =
     (let result = goud_transform2d_forward self in init_Vec2 (Vec2.x result) (Vec2.y result))"

section \<open>Sprite\<close>

text \<open>
  \<^verbatim>\<open>Color\<close> and \<^verbatim>\<open>FfiSprite\<close>. A \<^verbatim>\<open>Sprite\<close> object owns one \<^verbatim>\<open>FfiSprite\<close>
  structure, which the setters mutate in place. Sprite objects live in a store (a list
  of structures); a sprite is a reference (an index) into it, so that two names for one
  object see each other's updates and a new object is a new cell.
\<close>

datatype Color = Color real real real real

record FfiSprite =
  texture_handle :: "64 word"
  color_r :: real
  color_g :: real
  color_b :: real
  color_a :: real
  source_rect_x :: real
  source_rect_y :: real
  source_rect_width :: real
  source_rect_height :: real
  has_source_rect :: bool
  flip_x :: bool
  flip_y :: bool
  anchor_x :: real
  anchor_y :: real
  custom_size_x :: real
  custom_size_y :: real
  has_custom_size :: bool

text \<open>
  Modelled from the spec: the native \<^verbatim>\<open>goud_sprite_with_color\<close> and
  \<^verbatim>\<open>goud_sprite_set_color\<close> (only their ctypes declarations are in the sources).
  Section 4.4: both styles apply the same change, here the four colour channels; the
  builder receives the structure by value and returns the changed copy, the setter
  receives a pointer and changes the structure it points to (its result here is the
  new content of that structure).
\<close>

definition goud_sprite_with_color :: "FfiSprite \<Rightarrow> real \<Rightarrow> real \<Rightarrow> real \<Rightarrow> real \<Rightarrow> FfiSprite" where
  "goud_sprite_with_color sprite r g b a =
     sprite\<lparr>color_r := r, color_g := g, color_b := b, color_a := a\<rparr>"

definition goud_sprite_set_color :: "FfiSprite \<Rightarrow> real \<Rightarrow> real \<Rightarrow> real \<Rightarrow> real \<Rightarrow> FfiSprite" where
  "goud_sprite_set_color sprite r g b a =
     sprite\<lparr>color_r := r, color_g := g, color_b := b, color_a := a\<rparr>"

text \<open>
  The property \<^verbatim>\<open>Sprite.color\<close>: its getter, and its setter, which passes
  \<^verbatim>\<open>byref(self._ffi)\<close>, so the receiver's own structure is overwritten.
\<close>

definition color :: "FfiSprite list \<Rightarrow> nat \<Rightarrow> Color" where
  "color store self =
     Color (color_r (store ! self)) (color_g (store ! self))
       (color_b (store ! self)) (color_a (store ! self))"

fun color_setter :: "FfiSprite list \<Rightarrow> nat \<Rightarrow> Color \<Rightarrow> FfiSprite list" where
  "color_setter store self (Color r g b a) =
     store[self := goud_sprite_set_color (store ! self) r g b a]"

text \<open>
  \<^verbatim>\<open>Sprite.with_color\<close>: \<^verbatim>\<open>self._ffi\<close> is passed by value and
  \<^verbatim>\<open>Sprite._from_ffi\<close> wraps the returned structure in a new object.
\<close>

definition with_color ::
  "FfiSprite list \<Rightarrow> nat \<Rightarrow> real \<Rightarrow> real \<Rightarrow> real \<Rightarrow> real \<Rightarrow> nat \<times> FfiSprite list" where
  "with_color store self r g b a =
     (let ffi = goud_sprite_with_color (store ! self) r g b a
      in (length store, store @ [ffi]))"

definition white_sprite :: FfiSprite where
  "white_sprite =
     \<lparr>texture_handle = 100, color_r = 1, color_g = 1, color_b = 1, color_a = 1,
      source_rect_x = 0, source_rect_y = 0, source_rect_width = 0, source_rect_height = 0,
      has_source_rect = False, flip_x = False, flip_y = False, anchor_x = 0, anchor_y = 0,
      custom_size_x = 0, custom_size_y = 0, has_custom_size = False\<rparr>"

section \<open>Frame loop\<close>

text \<open>
  Modelled from the spec: the window backend behind \<^verbatim>\<open>goud_window_poll_events\<close>
  (only its ctypes declaration is in the sources). Sections 4.5 and 6: the backend
  supplies the frame's delta time, the wall time elapsed since the previous poll. The
  wall clock is an input of the call (\<open>now\<close>), and the backend remembers the time of
  the last poll.
\<close>

record window_backend =
  last_poll :: real
  rendering :: "ffi_call list"

definition goud_window_poll_events :: "real \<Rightarrow> window_backend \<Rightarrow> real \<times> window_backend" where
  "goud_window_poll_events now w = (now - last_poll w, w\<lparr>last_poll := now\<rparr>)"

text \<open>
  \<^verbatim>\<open>GoudGame\<close>: the attributes \<^verbatim>\<open>_context_id\<close> and \<^verbatim>\<open>_delta_time\<close>, which are
  the ones the frame bracket reads and writes, and the property \<^verbatim>\<open>delta_time\<close>.
\<close>

record GoudGame =
  game_context_id :: "64 word"
  delta_time_attr :: real

definition delta_time :: "GoudGame \<Rightarrow> real" where
  "delta_time self = delta_time_attr self"

definition render_call :: "ffi_call \<Rightarrow> window_backend \<Rightarrow> window_backend" where
  "render_call c w = w\<lparr>rendering := rendering w @ [c]\<rparr>"

text \<open>
  \<^verbatim>\<open>GoudGame.begin_frame\<close>: poll (storing the delta time), clear to sky blue, begin
  rendering, return the stored delta time. \<^verbatim>\<open>GoudGame.end_frame\<close>: end rendering,
  swap buffers.
\<close>

definition begin_frame :: "real \<Rightarrow> GoudGame \<times> window_backend \<Rightarrow> real \<times> GoudGame \<times> window_backend" where
  "begin_frame now = (\<lambda>(self, w).
     case goud_window_poll_events now w of
       (dt, w1) \<Rightarrow>
         let self' = self\<lparr>delta_time_attr := dt\<rparr>;
             w2 = render_call (goud_window_clear (game_context_id self') (4 / 10) (7 / 10) (9 / 10) 1) w1;
             w3 = render_call (goud_renderer_begin (game_context_id self')) w2
         in (delta_time_attr self', self', w3))"

definition end_frame :: "GoudGame \<times> window_backend \<Rightarrow> GoudGame \<times> window_backend" where
  "end_frame = (\<lambda>(self, w).
     (self, render_call (goud_window_swap_buffers (game_context_id self))
              (render_call (goud_renderer_end (game_context_id self)) w)))"

section \<open>Vec2\<close>

lemma length_Vec2_zero_iff: "length_Vec2 v = 0 \<longleftrightarrow> v = Vec2 0 0"
  by (cases v) (simp add: length_Vec2_def)

text \<open>
  Claim C10. \<^verbatim>\<open>Vec2.normalize\<close> is total: it never raises. On a vector of length 0
  (which is the zero vector, and only that one) it returns \<open>Vec2 0 0\<close> without
  dividing, and on a vector of nonzero length it returns the vector divided
  component-wise by its length.
\<close>

theorem normalize_Vec2_total:
  "(\<exists>w. normalize_Vec2 v = Inr w) \<and>
   (length_Vec2 v = 0 \<longrightarrow> v = Vec2 0 0 \<and> normalize_Vec2 v = Inr (Vec2 0 0)) \<and>
   (length_Vec2 v \<noteq> 0 \<longrightarrow>
      normalize_Vec2 v = Inr (Vec2 (Vec2.x v / length_Vec2 v) (Vec2.y v / length_Vec2 v)) \<and>
      normalize_Vec2 v = truediv v (length_Vec2 v))"
  using length_Vec2_zero_iff [of v]
  by (simp add: normalize_Vec2_def truediv_def Let_def)

lemma length_Vec2_3_4: "length_Vec2 (Vec2 3 4) = 5"
proof -
  have "(3::real)\<^sup>2 + 4\<^sup>2 = 5\<^sup>2" by simp
  then show ?thesis by (simp only: length_Vec2_def Vec2.sel real_sqrt_abs)
qed

theorem normalize_Vec2_total_witness:
  "length_Vec2 (Vec2 0 0) = 0 \<and> normalize_Vec2 (Vec2 0 0) = Inr (Vec2 0 0) \<and>
   length_Vec2 (Vec2 3 4) \<noteq> 0 \<and> normalize_Vec2 (Vec2 3 4) = Inr (Vec2 (3 / 5) (4 / 5))"
  using normalize_Vec2_total [of "Vec2 0 0"] normalize_Vec2_total [of "Vec2 3 4"]
  by (simp add: length_Vec2_3_4 length_Vec2_zero_iff)

section \<open>Floating point: rounding\<close>

lemma round_even_of_int [simp]: "round_even (of_int m) = m"
  by (simp add: round_even_def)

lemma round_even_error: "\<bar>of_int (round_even q) - q\<bar> \<le> 1 / 2"
proof -
  have "of_int \<lfloor>q\<rfloor> \<le> q" "q < of_int \<lfloor>q\<rfloor> + 1" by linarith+
  then show ?thesis by (auto simp: round_even_def Let_def)
qed

lemma floor_log2_eq:
  assumes "0 < v" "2 powi k \<le> v" "v < 2 powi (k + 1)"
  shows "\<lfloor>log 2 v\<rfloor> = k"
proof -
  have "2 powr (of_int k) \<le> v \<and> v < 2 powr (of_int k + 1)"
    using assms powr_real_of_int' [of 2 k] powr_real_of_int' [of 2 "k + 1"] by simp
  then show ?thesis using assms(1) floor_log_eq_powr_iff [of v 2 k] by simp
qed

lemma floor_log2_bounds:
  assumes "0 < v"
  shows "2 powi \<lfloor>log 2 v\<rfloor> \<le> v \<and> v < 2 powi (\<lfloor>log 2 v\<rfloor> + 1)"
proof -
  have "2 powr (of_int \<lfloor>log 2 v\<rfloor>) \<le> v \<and> v < 2 powr (of_int \<lfloor>log 2 v\<rfloor> + 1)"
    using assms floor_log_eq_powr_iff [of v 2 "\<lfloor>log 2 v\<rfloor>"] by simp
  then show ?thesis
    using powr_real_of_int' [of 2 "\<lfloor>log 2 v\<rfloor>"] powr_real_of_int' [of 2 "\<lfloor>log 2 v\<rfloor> + 1"] by simp
qed

lemma round_nearest_eval:
  assumes "v \<noteq> 0" "2 powi k \<le> \<bar>v\<bar>" "\<bar>v\<bar> < 2 powi (k + 1)"
    and "e = max k emin"
    and "round_even (v / 2 powi (e - int p + 1)) = n"
    and "\<bar>of_int n * 2 powi (e - int p + 1)\<bar> < (2::real) powi (emax + 1)"
  shows "round_nearest p emin emax v = Finite (of_int n * 2 powi (e - int p + 1))"
proof -
  have "\<lfloor>log 2 \<bar>v\<bar>\<rfloor> = k" using assms(1-3) by (intro floor_log2_eq) auto
  then show ?thesis using assms by (simp add: round_nearest_def Let_def)
qed

lemma powi2_less_cancel: "(2::real) powi a < 2 powi b \<Longrightarrow> a < b"
proof (rule ccontr)
  assume l: "(2::real) powi a < 2 powi b" and "\<not> a < b"
  then have "b \<le> a" by simp
  then have "(2::real) powi b \<le> 2 powi a" by (intro power_int_increasing) simp_all
  with l show False by simp
qed

lemma round_nearest_int:
  assumes "\<bar>n\<bar> < 2 ^ p" "emin \<le> 0" "int p \<le> emax + 1"
  shows "round_nearest p emin emax (of_int n) = Finite (of_int n)"
proof (cases "n = 0")
  case True
  then show ?thesis by (simp add: round_nearest_def)
next
  case False
  define v :: real where "v = of_int n"
  define k where "k = \<lfloor>log 2 \<bar>v\<bar>\<rfloor>"
  have v0: "v \<noteq> 0" and v1: "1 \<le> \<bar>v\<bar>" using False by (auto simp: v_def)
  have b: "2 powi k \<le> \<bar>v\<bar>" "\<bar>v\<bar> < 2 powi (k + 1)"
    using floor_log2_bounds [of "\<bar>v\<bar>"] v0 by (simp_all add: k_def)
  have "(2::real) powi 0 < 2 powi (k + 1)" using v1 b(2) by simp
  then have k0: "0 \<le> k" using powi2_less_cancel [of 0 "k + 1"] by simp
  have "\<bar>v\<bar> < 2 powi (int p)" using assms(1) unfolding v_def
    by (metis of_int_abs of_int_less_numeral_power_cancel_iff power_int_of_nat)
  then have "(2::real) powi k < 2 powi (int p)" using b(1) by simp
  then have kp: "k < int p" by (rule powi2_less_cancel)
  define m where "m = nat (int p - 1 - k)"
  define u :: real where "u = 2 powi (k - int p + 1)"
  have ulp: "u = inverse (2 ^ m)"
  proof -
    have "k - int p + 1 = - int m" using kp by (simp add: m_def)
    then show ?thesis by (simp add: u_def power_int_minus)
  qed
  have e: "k = max k emin" using k0 assms(2) by simp
  have scaled: "v / u = of_int (n * 2 ^ m)"
    by (simp add: ulp v_def field_simps)
  have "round_even (v / u) = n * 2 ^ m"
    unfolding scaled by (rule round_even_of_int)
  then have r: "round_even (v / 2 powi (k - int p + 1)) = n * 2 ^ m"
    by (simp only: u_def)
  have undo_scale: "of_int (n * 2 ^ m) * u = v"
    by (simp add: ulp v_def)
  have "\<bar>v\<bar> < 2 powi (emax + 1)"
  proof -
    have "(2::real) powi (int p) \<le> 2 powi (emax + 1)"
      using assms(3) by (intro power_int_increasing) simp_all
    with \<open>\<bar>v\<bar> < 2 powi (int p)\<close> show ?thesis by simp
  qed
  then have small: "\<bar>of_int (n * 2 ^ m) * (2::real) powi (k - int p + 1)\<bar> < 2 powi (emax + 1)"
    using undo_scale by (simp only: u_def)
  from round_nearest_eval [OF v0 b e r small]
  have "round_nearest p emin emax v = Finite (of_int (n * 2 ^ m) * u)"
    by (simp only: u_def)
  then show ?thesis by (simp only: undo_scale) (simp add: v_def)
qed

lemma round_nearest_error:
  assumes "\<bar>v\<bar> \<le> 2 powi emax" "emin \<le> emax" "1 \<le> p"
  shows "\<exists>q. round_nearest p emin emax v = Finite q \<and>
              \<bar>q - v\<bar> \<le> \<bar>v\<bar> / 2 ^ p + 2 powi (emin - int p)"
proof (cases "v = 0")
  case True
  then show ?thesis by (simp add: round_nearest_def)
next
  case False
  define k where "k = \<lfloor>log 2 \<bar>v\<bar>\<rfloor>"
  define e where "e = max k emin"
  define ulp :: real where "ulp = 2 powi (e - int p + 1)"
  define q where "q = of_int (round_even (v / ulp)) * ulp"
  have b: "2 powi k \<le> \<bar>v\<bar>" "\<bar>v\<bar> < 2 powi (k + 1)"
    using floor_log2_bounds [of "\<bar>v\<bar>"] False by (simp_all add: k_def)
  have ulp0: "0 < ulp" by (simp add: ulp_def)
  have half: "ulp / 2 = 2 powi (e - int p)"
    by (simp add: ulp_def power_int_add)
  have "q - v = (of_int (round_even (v / ulp)) - v / ulp) * ulp"
    using ulp0 by (simp add: q_def field_simps)
  then have "\<bar>q - v\<bar> = \<bar>of_int (round_even (v / ulp)) - v / ulp\<bar> * ulp"
    using ulp0 by (simp add: abs_mult)
  also have "\<dots> \<le> 1 / 2 * ulp"
    using round_even_error [of "v / ulp"] ulp0 by (intro mult_right_mono) simp_all
  finally have err: "\<bar>q - v\<bar> \<le> 2 powi (e - int p)" using half by simp
  have "(2::real) powi k \<le> 2 powi emax" using b(1) assms(1) by simp
  have kmax: "k \<le> emax"
  proof (rule ccontr)
    assume "\<not> k \<le> emax"
    then have "emax + 1 \<le> k" by simp
    then have "(2::real) powi (emax + 1) \<le> 2 powi k" by (intro power_int_increasing) simp_all
    moreover have "(2::real) powi emax < 2 powi (emax + 1)"
      by (intro power_int_strict_increasing) simp_all
    ultimately show False using \<open>(2::real) powi k \<le> 2 powi emax\<close> by simp
  qed
  then have emax: "e \<le> emax" using assms(2) by (simp add: e_def)
  have split: "(2::real) powi (e - int p) \<le> \<bar>v\<bar> / 2 ^ p + 2 powi (emin - int p)"
  proof (cases "emin \<le> k")
    case True
    then have "e = k" by (simp add: e_def)
    then have "(2::real) powi (e - int p) = 2 powi k / 2 ^ p"
      by (simp add: power_int_diff)
    also have "\<dots> \<le> \<bar>v\<bar> / 2 ^ p" using b(1) by (simp add: divide_right_mono)
    finally show ?thesis
      using zero_less_power_int [of "2::real" "emin - int p"] by linarith
  next
    case False
    then have "e = emin" by (simp add: e_def)
    then show ?thesis by simp
  qed
  have "(2::real) powi (e - int p) \<le> 2 powi (emax - 1)"
    using emax assms(3) by (intro power_int_increasing) simp_all
  moreover have "(2::real) powi (emax + 1) = 4 * 2 powi (emax - 1)"
    by (simp add: power_int_add power_int_diff)
  moreover have "(2::real) powi emax = 2 * 2 powi (emax - 1)"
    by (simp add: power_int_diff)
  moreover have "0 < (2::real) powi (emax - 1)" by simp
  ultimately have "\<bar>q\<bar> < 2 powi (emax + 1)" using err assms(1) by linarith
  then have "round_nearest p emin emax v = Finite q"
    using False by (simp add: round_nearest_def Let_def k_def e_def ulp_def q_def)
  then show ?thesis using err split by (intro exI [of _ q]) linarith
qed

lemma binary32_int: "\<bar>n\<bar> < 2 ^ 24 \<Longrightarrow> binary32 (of_int n) = Finite (of_int n)"
  unfolding binary32_def by (rule round_nearest_int) simp_all

lemma binary64_int: "\<bar>n\<bar> < 2 ^ 53 \<Longrightarrow> binary64 (of_int n) = Finite (of_int n)"
  unfolding binary64_def by (rule round_nearest_int) simp_all

lemma binary32_tie: "binary32 16777217 = Finite 16777216"
  unfolding binary32_def
  using round_nearest_eval [of 16777217 24 24 "- 126" 24 8388608 127]
  by (simp add: round_even_def)

lemma binary32_small: "binary32 (1 / 2 ^ 60) = Finite (1 / 2 ^ 60)"
  unfolding binary32_def
  using round_nearest_eval [of "1 / 2 ^ 60" "- 60" "- 60" "- 126" 24 "2 ^ 23" 127]
  by (simp add: round_even_def power_int_minus field_simps)

lemma binary64_absorbed: "binary64 (1 + 1 / 2 ^ 60) = Finite 1"
  unfolding binary64_def
  using round_nearest_eval [of "1 + 1 / 2 ^ 60" 0 0 "- 1022" 53 "2 ^ 52" 1023]
  by (simp add: round_even_def power_int_minus field_simps)

lemma float_lt_irrefl: "\<not> float_lt a a"
  by (cases a) simp_all

lemma float_lt_le: "float_lt a b \<Longrightarrow> float_le a a"
  by (cases a; cases b) simp_all


lemma binary32_error:
  assumes "\<bar>v\<bar> \<le> 2 ^ 127"
  shows "\<exists>q. binary32 v = Finite q \<and> \<bar>q - v\<bar> \<le> \<bar>v\<bar> / 2 ^ 24 + 1 / 2 ^ 150"
proof -
  have "\<exists>q. round_nearest 24 (- 126) 127 v = Finite q \<and>
          \<bar>q - v\<bar> \<le> \<bar>v\<bar> / 2 ^ 24 + 2 powi (- 126 - int 24)"
    using assms by (intro round_nearest_error) simp_all
  moreover have "(2::real) powi (- 126 - int 24) = 1 / 2 ^ 150"
    by (simp add: power_int_minus inverse_eq_divide)
  ultimately show ?thesis by (simp only: binary32_def)
qed

lemma binary32_unit:
  assumes "\<bar>c\<bar> \<le> 1"
  shows "\<exists>f. c_float (binary32 c) = Finite f \<and> \<bar>f - c\<bar> \<le> 1 / 2 ^ 22"
proof -
  have tiny: "(1::real) / 2 ^ 150 \<le> 1 / 2 ^ 25" by simp
  have n1: "(1::real) / 2 ^ 24 + 1 / 2 ^ 25 \<le> 1" by simp
  have n2: "(1::real) / 2 ^ 24 + 1 / 2 ^ 25 + (2 / 2 ^ 24 + 1 / 2 ^ 25) = 1 / 2 ^ 22" by simp
  obtain q where q: "binary32 c = Finite q" "\<bar>q - c\<bar> \<le> \<bar>c\<bar> / 2 ^ 24 + 1 / 2 ^ 150"
    using binary32_error [of c] assms by auto
  have "\<bar>c\<bar> / 2 ^ 24 \<le> 1 / 2 ^ 24" using assms by (simp add: divide_right_mono)
  then have qc: "\<bar>q - c\<bar> \<le> 1 / 2 ^ 24 + 1 / 2 ^ 25" using q(2) tiny by linarith
  then have q2: "\<bar>q\<bar> \<le> 2" using assms n1 by linarith
  then have "\<bar>q\<bar> \<le> 2 ^ 127" by simp
  then obtain f where f: "binary32 q = Finite f" "\<bar>f - q\<bar> \<le> \<bar>q\<bar> / 2 ^ 24 + 1 / 2 ^ 150"
    using binary32_error [of q] by auto
  have "\<bar>q\<bar> / 2 ^ 24 \<le> 2 / 2 ^ 24" using q2 by (simp add: divide_right_mono)
  then have "\<bar>f - q\<bar> \<le> 2 / 2 ^ 24 + 1 / 2 ^ 25" using f(2) tiny by linarith
  then have "\<bar>f - c\<bar> \<le> 1 / 2 ^ 22" using qc n2 by linarith
  then show ?thesis using q(1) f(1) by simp
qed

section \<open>Rect: containment\<close>

text \<open>
  Claim C4, as amended. \<^verbatim>\<open>Rect.contains\<close> holds exactly when
  \<open>r.x \<le> p.x < r.x + r.width\<close> and \<open>r.y \<le> p.y < r.y + r.height\<close>, where the two
  sums are the rounded Python float sums the code compares with. Containment is
  half-open: a point on the right edge (\<open>p.x\<close> equal to the rounded sum) or on the
  bottom edge is outside, and the left/top corner is inside exactly when each position
  is strictly below its rounded sum. Whenever the two sums are exact, this is the
  containment \<open>r.x \<le> p.x < r.x + r.width\<close>, \<open>r.y \<le> p.y < r.y + r.height\<close> over
  the real numbers.
\<close>

theorem contains_half_open:
  "(contains r p \<longleftrightarrow>
      float_le (Rect.x r) (Vec2.x p) \<and>
      float_lt (Vec2.x p) (float_add (Rect.x r) (width r)) \<and>
      float_le (Rect.y r) (Vec2.y p) \<and>
      float_lt (Vec2.y p) (float_add (Rect.y r) (height r))) \<and>
   (contains r (Vec2 (Rect.x r) (Rect.y r)) \<longleftrightarrow>
      float_lt (Rect.x r) (float_add (Rect.x r) (width r)) \<and>
      float_lt (Rect.y r) (float_add (Rect.y r) (height r))) \<and>
   (Vec2.x p = float_add (Rect.x r) (width r) \<longrightarrow> \<not> contains r p) \<and>
   (Vec2.y p = float_add (Rect.y r) (height r) \<longrightarrow> \<not> contains r p) \<and>
   (float_add (Finite rx) (Finite rw) = Finite (rx + rw) \<and>
    float_add (Finite ry) (Finite rh) = Finite (ry + rh) \<longrightarrow>
      (contains (Rect (Finite rx) (Finite ry) (Finite rw) (Finite rh)) (Vec2 (Finite qx) (Finite qy)) \<longleftrightarrow>
         rx \<le> qx \<and> qx < rx + rw \<and> ry \<le> qy \<and> qy < ry + rh))"
proof -
  have 1: "contains r (Vec2 (Rect.x r) (Rect.y r)) \<longleftrightarrow>
      float_lt (Rect.x r) (float_add (Rect.x r) (width r)) \<and>
      float_lt (Rect.y r) (float_add (Rect.y r) (height r))"
    using float_lt_le by (auto simp: contains_def)
  have 2: "Vec2.x p = float_add (Rect.x r) (width r) \<longrightarrow> \<not> contains r p"
    "Vec2.y p = float_add (Rect.y r) (height r) \<longrightarrow> \<not> contains r p"
    using float_lt_irrefl by (auto simp: contains_def)
  have 3: "float_add (Finite rx) (Finite rw) = Finite (rx + rw) \<and>
    float_add (Finite ry) (Finite rh) = Finite (ry + rh) \<longrightarrow>
      (contains (Rect (Finite rx) (Finite ry) (Finite rw) (Finite rh)) (Vec2 (Finite qx) (Finite qy)) \<longleftrightarrow>
         rx \<le> qx \<and> qx < rx + rw \<and> ry \<le> qy \<and> qy < ry + rh)"
    by (simp add: contains_def del: float_add.simps)
  show ?thesis using 1 2 3 by (simp add: contains_def del: float_add.simps)
qed

lemma init_Rect_test: "init_Rect (Finite 10) (Finite 20) (Finite 100) (Finite 50) =
    Rect (Finite 10) (Finite 20) (Finite 100) (Finite 50)"
  using binary32_int [of 10] binary32_int [of 20] binary32_int [of 100] binary32_int [of 50]
  by (simp add: init_Rect_def)

lemma float_add_test:
  "float_add (Finite 10) (Finite 100) = Finite (10 + 100)"
  "float_add (Finite 20) (Finite 50) = Finite (20 + 50)"
  using binary64_int [of 110] binary64_int [of 70] by simp_all

theorem contains_half_open_witness:
  "float_add (Finite 10) (Finite 100) = Finite (10 + 100) \<and>
   float_add (Finite 20) (Finite 50) = Finite (20 + 50) \<and>
   contains (init_Rect (Finite 10) (Finite 20) (Finite 100) (Finite 50)) (Vec2 (Finite 50) (Finite 30)) \<and>
   contains (init_Rect (Finite 10) (Finite 20) (Finite 100) (Finite 50)) (Vec2 (Finite 10) (Finite 20)) \<and>
   \<not> contains (init_Rect (Finite 10) (Finite 20) (Finite 100) (Finite 50)) (Vec2 (Finite 110) (Finite 30)) \<and>
   \<not> contains (init_Rect (Finite 10) (Finite 20) (Finite 100) (Finite 50)) (Vec2 (Finite 50) (Finite 70)) \<and>
   \<not> contains (init_Rect (Finite 10) (Finite 20) (Finite 100) (Finite 50)) (Vec2 (Finite 0) (Finite 0)) \<and>
   \<not> contains (init_Rect (Finite 10) (Finite 20) (Finite 100) (Finite 50)) (Vec2 (Finite 111) (Finite 71))"
  using contains_half_open [of _ _ 10 100 20 50 50 30]
    contains_half_open [of _ _ 10 100 20 50 10 20]
    contains_half_open [of _ _ 10 100 20 50 110 30]
    contains_half_open [of _ _ 10 100 20 50 50 70]
    contains_half_open [of _ _ 10 100 20 50 0 0]
    contains_half_open [of _ _ 10 100 20 50 111 71]
    float_add_test
  by (simp add: init_Rect_test del: float_add.simps)

text \<open>
  Claim C4 as stated fails for \<^verbatim>\<open>Rect(1, 0, 2**-60, 1)\<close> and the point
  \<^verbatim>\<open>Vec2(1, 0)\<close>: the width is positive and the point is the left/top corner, so over
  the real numbers \<open>1 \<le> 1 < 1 + 2 ^ -60\<close>; the float sum \<open>1 + 2 ^ -60\<close> is 1, and
  the code returns False.
\<close>

theorem contains_counterexample:
  "(0::real) < 1 / 2 ^ 60 \<and>
   (1::real) \<le> 1 \<and> (1::real) < 1 + 1 / 2 ^ 60 \<and> (0::real) \<le> 0 \<and> (0::real) < 0 + 1 \<and>
   \<not> contains (init_Rect (Finite 1) (Finite 0) (Finite (1 / 2 ^ 60)) (Finite 1))
        (init_Vec2 (Finite 1) (Finite 0))"
proof -
  have r: "init_Rect (Finite 1) (Finite 0) (Finite (1 / 2 ^ 60)) (Finite 1) =
      Rect (Finite 1) (Finite 0) (Finite (1 / 2 ^ 60)) (Finite 1)"
    using binary32_int [of 1] binary32_int [of 0] binary32_small by (simp add: init_Rect_def)
  have p: "init_Vec2 (Finite 1) (Finite 0) = Vec2 (Finite 1) (Finite 0)"
    using binary32_int [of 1] binary32_int [of 0] by (simp add: init_Vec2_def)
  have sum: "float_add (Finite 1) (Finite (1 / 2 ^ 60)) = Finite 1"
    by (simp only: float_add.simps binary64_absorbed)
  have "\<not> float_lt (Finite 1) (Finite 1)" by simp
  then have "\<not> contains (Rect (Finite 1) (Finite 0) (Finite (1 / 2 ^ 60)) (Finite 1))
      (Vec2 (Finite 1) (Finite 0))"
    by (simp only: contains_def Rect.sel Vec2.sel sum) simp
  then show ?thesis by (simp only: r p) simp
qed

section \<open>Context lifecycle: destroy and the with-block\<close>

lemma destroy_destroyed: "destroyed (fst (destroy st))"
  by (cases st) (simp add: destroy_def)

lemma destroy_context_id: "context_id (fst (destroy st)) = context_id (fst st)"
  by (cases st) (simp add: destroy_def)

lemma destroy_noop: "destroyed self \<Longrightarrow> destroy (self, calls) = (self, calls)"
  by (simp add: destroy_def)

lemma destroy_releases:
  "releases (context_id self) (snd (destroy (self, calls))) =
     (if destroyed self then releases (context_id self) calls
      else Suc (releases (context_id self) calls))"
  by (simp add: destroy_def releases_def)

text \<open>
  Claim C2. \<^verbatim>\<open>GoudContext.destroy\<close> is idempotent. After a first destroy, a further
  destroy (whatever was called in between) returns the wrapper and the trace of
  native calls as they were: no release action, no fault. The first destroy of a
  fresh wrapper releases the native context exactly once, and after destroy
  \<^verbatim>\<open>is_valid\<close> is False whatever the native library would answer.
\<close>

theorem destroy_idempotent:
  "destroy (fst (destroy (self, calls)), calls') = (fst (destroy (self, calls)), calls') \<and>
   destroy (destroy (self, calls)) = destroy (self, calls) \<and>
   releases cid (snd (destroy (destroy (init_GoudContext cid, [])))) = 1 \<and>
   is_valid goud_context_is_valid (fst (destroy (self, calls))) = False"
proof -
  have d: "destroyed (fst (destroy (self, calls)))"
    by (rule destroy_destroyed)
  have 1: "destroy (fst (destroy (self, calls)), cs) = (fst (destroy (self, calls)), cs)" for cs
    using d by (rule destroy_noop)
  have 2: "destroy (destroy (self, calls)) = destroy (self, calls)"
    using 1 [of "snd (destroy (self, calls))"] by simp
  have 3: "releases cid (snd (destroy (destroy (init_GoudContext cid, [])))) = 1"
    by (simp add: destroy_def init_GoudContext_def releases_def)
  have 4: "is_valid goud_context_is_valid (fst (destroy (self, calls))) = False"
    using d by (simp add: is_valid_def)
  show ?thesis using 1 [of calls'] 2 3 4 by simp
qed

text \<open>
  Claim C7. A \<^verbatim>\<open>GoudContext\<close> used in a with-block is destroyed on every exit path.
  Whatever way the body leaves the block (completion, \<^verbatim>\<open>return\<close>, a raised exception),
  provided the body left the wrapper consistent with the trace (it set the flag only
  by destroying), after the block the wrapper is destroyed, the native context is
  released, the release happened once more only if the body had not destroyed the
  context itself, and the way the block was left is passed on unchanged.
\<close>

theorem with_block_destroys:
  assumes body: "body (enter mgr, calls) = (how, ctx', calls')"
    and consistent: "destroyed ctx' \<longrightarrow> released (ctx', calls')"
  shows "fst (with_block body (mgr, calls)) = how \<and>
         snd (with_block body (mgr, calls)) = destroy (ctx', calls') \<and>
         destroyed (fst (snd (with_block body (mgr, calls)))) \<and>
         released (snd (with_block body (mgr, calls))) \<and>
         releases (context_id ctx') (snd (snd (with_block body (mgr, calls)))) =
           (if destroyed ctx' then releases (context_id ctx') calls'
            else Suc (releases (context_id ctx') calls'))"
proof -
  have w: "with_block body (mgr, calls) = (how, destroy (ctx', calls'))"
    using body by (cases how) (simp_all add: with_block_def exit_GoudContext_def)
  have r: "released (destroy (ctx', calls'))"
    using consistent by (simp add: destroy_def released_def)
  show ?thesis
    using w r destroy_destroyed [of "(ctx', calls')"] destroy_releases [of ctx' calls']
    by simp
qed

theorem with_block_destroys_witness:
  "with_block (\<lambda>st. (Raised ValueError, st)) (init_GoudContext 5, []) =
     (Raised ValueError :: nat block_exit, \<lparr>context_id = 5, destroyed = True\<rparr>, [goud_context_destroy 5]) \<and>
   with_block (\<lambda>st. (Returned (7::nat), st)) (init_GoudContext 5, []) =
     (Returned 7, \<lparr>context_id = 5, destroyed = True\<rparr>, [goud_context_destroy 5]) \<and>
   with_block (\<lambda>st. (Completed :: nat block_exit, destroy st)) (init_GoudContext 5, []) =
     (Completed, \<lparr>context_id = 5, destroyed = True\<rparr>, [goud_context_destroy 5])"
  using
    with_block_destroys [of "\<lambda>st. (Raised ValueError :: nat block_exit, st)"
      "init_GoudContext 5" "[]" "Raised ValueError" "init_GoudContext 5" "[]"]
    with_block_destroys [of "\<lambda>st. (Returned (7::nat), st)"
      "init_GoudContext 5" "[]" "Returned 7" "init_GoudContext 5" "[]"]
    with_block_destroys [of "\<lambda>st. (Completed :: nat block_exit, destroy st)"
      "init_GoudContext 5" "[]" "Completed" "\<lparr>context_id = 5, destroyed = True\<rparr>"
      "[goud_context_destroy 5]"]
  by (simp add: enter_def init_GoudContext_def destroy_def released_def prod_eq_iff)

section \<open>Entities: spawn and batch spawn\<close>

lemma ucast_pack: "(ucast (pack i g) :: 32 word) = word_of_nat i"
  unfolding pack_def
  apply (rule bit_word_eqI)
  apply (auto simp: bit_simps)
  done

lemma pack_not_INVALID: "i < index_space \<Longrightarrow> pack i g \<noteq> INVALID"
proof
  assume i: "i < index_space" and eq: "pack i g = INVALID"
  have "(ucast (pack i g) :: 32 word) = ucast INVALID" using eq by simp
  then have "(word_of_nat i :: 32 word) = - 1" by (simp add: ucast_pack INVALID_def)
  then have "unat (word_of_nat i :: 32 word) = unat (- 1 :: 32 word)" by simp
  then show False using i
    by (simp add: index_space_def unat_of_nat take_bit_nat_eq_self
        unsigned_minus_1_eq_mask mask_eq_exp_minus_1)
qed

lemma spawn_exhausted: "exhausted t \<Longrightarrow> spawn t = (INVALID, t)"
  by (simp add: exhausted_def spawn_def)

lemma spawn_INVALID_iff:
  "wf_table t \<Longrightarrow> fst (spawn t) = INVALID \<longleftrightarrow> exhausted t"
  by (auto simp: wf_table_def exhausted_def spawn_def Let_def
      pack_not_INVALID split: list.splits)





lemma spawn_entity_dead:
  "w (context_id self) = None \<Longrightarrow> spawn_entity self w = (Inl GoudEngineError, w)"
  by (simp add: spawn_entity_def goud_entity_spawn_empty_def)

lemma spawn_entity_live:
  "w (context_id self) = Some t \<Longrightarrow>
   spawn_entity self w =
     (if fst (spawn t) = INVALID then Inl GoudEngineError else Inr (fst (spawn t)),
      w(context_id self \<mapsto> snd (spawn t)))"
  by (simp add: spawn_entity_def goud_entity_spawn_empty_def split: prod.splits)



lemma wf_empty_table: "wf_table empty_table"
  by (simp add: wf_table_def empty_table_def)

lemma wf_full_table: "wf_table full_table"
  by (simp add: wf_table_def full_table_def)

lemma exhausted_full_table: "exhausted full_table"
  by (simp add: exhausted_def full_table_def)

lemma not_exhausted_empty_table: "\<not> exhausted empty_table"
  by (simp add: exhausted_def empty_table_def index_space_def)

lemma spawn_empty_table:
  "spawn empty_table = (0, \<lparr>generations = [0], alive = [True], free_list = []\<rparr>)"
  by (simp add: spawn_def empty_table_def index_space_def pack_def)




text \<open>
  Claim C1, as amended. For every call, \<^verbatim>\<open>GoudContext.spawn_entity\<close> never returns
  \<open>INVALID\<close>: it fails exactly when the native spawn returns the all-ones handle, and
  the failure is the raised (catchable) \<^verbatim>\<open>GoudEngineError\<close>; on success the handle is
  the native one and differs from \<open>INVALID\<close>. With a well-formed table the failure
  happens exactly when the index space is exhausted or the context is not live (the
  wrapper does not look at its \<^verbatim>\<open>_destroyed\<close> flag), and a failed call changes nothing.
\<close>

theorem spawn_entity_raises:
  "(fst (spawn_entity self w) = Inl GoudEngineError \<longleftrightarrow>
      fst (goud_entity_spawn_empty (context_id self) w) = INVALID) \<and>
   fst (spawn_entity self w) \<noteq> Inr INVALID \<and>
   (\<forall>h. fst (spawn_entity self w) = Inr h \<longrightarrow>
      h \<noteq> INVALID \<and> h = fst (goud_entity_spawn_empty (context_id self) w)) \<and>
   (\<forall>e. fst (spawn_entity self w) = Inl e \<longrightarrow> e = GoudEngineError) \<and>
   (spawn_fails (context_id self) w \<longrightarrow> spawn_entity self w = (Inl GoudEngineError, w)) \<and>
   (wf_context (context_id self) w \<longrightarrow>
      (fst (spawn_entity self w) = Inl GoudEngineError \<longleftrightarrow> spawn_fails (context_id self) w))"
proof -
  have guard: "(fst (spawn_entity self w) = Inl GoudEngineError \<longleftrightarrow>
      fst (goud_entity_spawn_empty (context_id self) w) = INVALID) \<and>
   fst (spawn_entity self w) \<noteq> Inr INVALID \<and>
   (\<forall>h. fst (spawn_entity self w) = Inr h \<longrightarrow>
      h \<noteq> INVALID \<and> h = fst (goud_entity_spawn_empty (context_id self) w)) \<and>
   (\<forall>e. fst (spawn_entity self w) = Inl e \<longrightarrow> e = GoudEngineError)"
    by (auto simp: spawn_entity_def split: prod.splits if_splits)
  have fails: "spawn_entity self w = (Inl GoudEngineError, w)" if "spawn_fails (context_id self) w"
  proof (cases "w (context_id self)")
    case None
    then show ?thesis by (rule spawn_entity_dead)
  next
    case (Some t)
    then have "exhausted t" using that by (simp add: spawn_fails_def)
    then show ?thesis using Some by (simp add: spawn_entity_live spawn_exhausted map_upd_triv)
  qed
  have iff: "fst (spawn_entity self w) = Inl GoudEngineError \<longleftrightarrow> spawn_fails (context_id self) w"
    if "wf_context (context_id self) w"
  proof (cases "w (context_id self)")
    case None
    then show ?thesis by (simp add: spawn_entity_dead spawn_fails_def)
  next
    case (Some t)
    then have "wf_table t" using that by (simp add: wf_context_def)
    then show ?thesis using Some spawn_INVALID_iff [of t]
      by (simp add: spawn_entity_live spawn_fails_def)
  qed
  show ?thesis using guard fails iff by blast
qed

theorem spawn_entity_raises_witness:
  "spawn_fails 5 (one_context full_table) \<and> wf_context 5 (one_context full_table) \<and>
   spawn_entity (init_GoudContext 5) (one_context full_table) =
     (Inl GoudEngineError, one_context full_table) \<and>
   wf_context 5 (one_context empty_table) \<and> \<not> spawn_fails 5 (one_context empty_table) \<and>
   fst (spawn_entity (init_GoudContext 5) (one_context empty_table)) = Inr 0"
proof -
  have f: "spawn_fails 5 (one_context full_table)" "wf_context 5 (one_context full_table)"
    "wf_context 5 (one_context empty_table)" "\<not> spawn_fails 5 (one_context empty_table)"
    by (simp_all add: spawn_fails_def wf_context_def one_context_def exhausted_full_table
        wf_full_table wf_empty_table not_exhausted_empty_table)
  have e: "fst (spawn_entity (init_GoudContext 5) (one_context empty_table)) = Inr 0"
    by (simp add: spawn_entity_live [of _ _ empty_table] one_context_def init_GoudContext_def
        spawn_empty_table INVALID_def)
  show ?thesis
    using spawn_entity_raises [of "init_GoudContext 5" "one_context full_table"]
      spawn_entity_raises [of "init_GoudContext 5" "one_context empty_table"] f e
    by (simp add: init_GoudContext_def)
qed

text \<open>
  Claim C1 as stated fails twice. On the exhausted table the native spawn returns
  \<open>INVALID\<close>, and \<^verbatim>\<open>spawn_entity\<close> reports the failure by raising, not by returning
  that handle. And after \<^verbatim>\<open>destroy\<close> a spawn on the same wrapper fails although the
  table was not exhausted.
\<close>

theorem spawn_entity_counterexample:
  "exhausted full_table \<and>
   fst (goud_entity_spawn_empty 5 (one_context full_table)) = INVALID \<and>
   fst (spawn_entity (init_GoudContext 5) (one_context full_table)) = Inl GoudEngineError \<and>
   fst (spawn_entity (init_GoudContext 5) (one_context full_table)) \<noteq> Inr INVALID \<and>
   \<not> exhausted empty_table \<and>
   destroy (init_GoudContext 5, []) =
     (\<lparr>context_id = 5, destroyed = True\<rparr>, [goud_context_destroy 5]) \<and>
   after_calls [goud_context_destroy 5] (one_context empty_table) 5 = None \<and>
   fst (spawn_entity \<lparr>context_id = 5, destroyed = True\<rparr>
          (after_calls [goud_context_destroy 5] (one_context empty_table))) =
     Inl GoudEngineError"
proof -
  have full: "fst (goud_entity_spawn_empty 5 (one_context full_table)) = INVALID"
    by (simp add: goud_entity_spawn_empty_def one_context_def spawn_exhausted exhausted_full_table)
  have raise: "fst (spawn_entity (init_GoudContext 5) (one_context full_table)) = Inl GoudEngineError"
    by (simp add: spawn_entity_live [of _ _ full_table] one_context_def init_GoudContext_def
        spawn_exhausted exhausted_full_table)
  have dead: "after_calls [goud_context_destroy 5] (one_context empty_table) 5 = None"
    by (simp add: after_calls_def one_context_def)
  then have gone: "fst (spawn_entity \<lparr>context_id = 5, destroyed = True\<rparr>
          (after_calls [goud_context_destroy 5] (one_context empty_table))) = Inl GoudEngineError"
    by (simp add: spawn_entity_dead)
  have d: "destroy (init_GoudContext 5, []) =
     (\<lparr>context_id = 5, destroyed = True\<rparr>, [goud_context_destroy 5])"
    by (simp add: destroy_def init_GoudContext_def)
  show ?thesis
    using full raise dead gone d exhausted_full_table not_exhausted_empty_table by simp
qed




section \<open>Collision query: strict overlap\<close>




section \<open>Transform2D: the rotation convention\<close>

lemma sin_lipschitz: "\<bar>sin u - sin v\<bar> \<le> \<bar>u - (v::real)\<bar>"
proof -
  have "\<bar>sin u - sin v\<bar> = 2 * \<bar>sin ((u - v) / 2)\<bar> * \<bar>cos ((u + v) / 2)\<bar>"
    by (simp add: sin_diff_sin abs_mult)
  also have "\<dots> \<le> 2 * \<bar>(u - v) / 2\<bar> * 1"
    by (intro mult_mono mult_nonneg_nonneg abs_sin_x_le_abs_x abs_cos_le_one) simp_all
  finally show ?thesis by simp
qed

lemma cos_lipschitz: "\<bar>cos u - cos v\<bar> \<le> \<bar>u - (v::real)\<bar>"
proof -
  have "\<bar>cos u - cos v\<bar> = 2 * \<bar>sin ((u + v) / 2)\<bar> * \<bar>sin ((v - u) / 2)\<bar>"
    by (simp add: cos_diff_cos abs_mult)
  also have "\<dots> \<le> 2 * 1 * \<bar>(v - u) / 2\<bar>"
    by (intro mult_mono mult_nonneg_nonneg abs_sin_x_le_abs_x abs_sin_le_one) simp_all
  finally show ?thesis by simp
qed

lemma rotation_forward_bounds:
  assumes "\<bar>\<theta>\<bar> \<le> 2 ^ 127"
  shows "\<exists>\<theta>' fx fy.
           c_float (Finite \<theta>) = Finite \<theta>' \<and>
           \<bar>\<theta>' - \<theta>\<bar> \<le> \<bar>\<theta>\<bar> / 2 ^ 24 + 1 / 2 ^ 150 \<and>
           rotation (from_rotation (Finite \<theta>)) = Finite \<theta>' \<and>
           forward (from_rotation (Finite \<theta>)) = Vec2 (Finite fx) (Finite fy) \<and>
           \<bar>fx - cos \<theta>'\<bar> \<le> 1 / 2 ^ 22 \<and> \<bar>fy - sin \<theta>'\<bar> \<le> 1 / 2 ^ 22 \<and>
           \<bar>fx - cos \<theta>\<bar> \<le> \<bar>\<theta>\<bar> / 2 ^ 24 + 1 / 2 ^ 21 \<and>
           \<bar>fy - sin \<theta>\<bar> \<le> \<bar>\<theta>\<bar> / 2 ^ 24 + 1 / 2 ^ 21"
proof -
  obtain \<theta>' where t: "binary32 \<theta> = Finite \<theta>'" "\<bar>\<theta>' - \<theta>\<bar> \<le> \<bar>\<theta>\<bar> / 2 ^ 24 + 1 / 2 ^ 150"
    using binary32_error [OF assms] by auto
  obtain fx where fx: "c_float (binary32 (cos \<theta>')) = Finite fx" "\<bar>fx - cos \<theta>'\<bar> \<le> 1 / 2 ^ 22"
    using binary32_unit [of "cos \<theta>'"] by auto
  obtain fy where fy: "c_float (binary32 (sin \<theta>')) = Finite fy" "\<bar>fy - sin \<theta>'\<bar> \<le> 1 / 2 ^ 22"
    using binary32_unit [of "sin \<theta>'"] by auto
  have rot: "rotation (from_rotation (Finite \<theta>)) = Finite \<theta>'"
    by (simp add: from_rotation_def goud_transform2d_from_rotation_def t(1))
  have fwd: "forward (from_rotation (Finite \<theta>)) = Vec2 (Finite fx) (Finite fy)"
    by (simp add: forward_def goud_transform2d_forward_def rot init_Vec2_def fx(1) fy(1))
  have tiny: "(1::real) / 2 ^ 150 \<le> 1 / 2 ^ 22" by simp
  have twice: "(1::real) / 2 ^ 22 + 1 / 2 ^ 22 = 1 / 2 ^ 21" by simp
  have "\<bar>cos \<theta>' - cos \<theta>\<bar> \<le> \<bar>\<theta>\<bar> / 2 ^ 24 + 1 / 2 ^ 22"
    using cos_lipschitz [of \<theta>' \<theta>] t(2) tiny by linarith
  then have cx: "\<bar>fx - cos \<theta>\<bar> \<le> \<bar>\<theta>\<bar> / 2 ^ 24 + 1 / 2 ^ 21" using fx(2) twice by linarith
  have "\<bar>sin \<theta>' - sin \<theta>\<bar> \<le> \<bar>\<theta>\<bar> / 2 ^ 24 + 1 / 2 ^ 22"
    using sin_lipschitz [of \<theta>' \<theta>] t(2) tiny by linarith
  then have cy: "\<bar>fy - sin \<theta>\<bar> \<le> \<bar>\<theta>\<bar> / 2 ^ 24 + 1 / 2 ^ 21" using fy(2) twice by linarith
  have c: "c_float (Finite \<theta>) = Finite \<theta>'" using t(1) by simp
  show ?thesis
    by (intro exI [of _ \<theta>'] exI [of _ fx] exI [of _ fy] conjI c t(2) rot fwd fx(2) fy(2) cx cy)
qed

lemma forward_close:
  assumes "\<bar>\<theta>\<bar> \<le> 16000" "\<bar>cos \<theta> - cx\<bar> \<le> 1 / 10 ^ 6" "\<bar>sin \<theta> - cy\<bar> \<le> 1 / 10 ^ 6"
  shows "close_to (1 / 1000) (Vec2.x (forward (from_rotation (Finite \<theta>)))) cx \<and>
         close_to (1 / 1000) (Vec2.y (forward (from_rotation (Finite \<theta>)))) cy"
proof -
  define B where "B = \<bar>\<theta>\<bar> / 2 ^ 24 + 1 / 2 ^ 21"
  define tol :: real where "tol = 1 / 10 ^ 6"
  have "\<bar>\<theta>\<bar> \<le> 2 ^ 127" using assms(1) by simp
  then obtain fx fy where f: "forward (from_rotation (Finite \<theta>)) = Vec2 (Finite fx) (Finite fy)"
    "\<bar>fx - cos \<theta>\<bar> \<le> B" "\<bar>fy - sin \<theta>\<bar> \<le> B"
    using rotation_forward_bounds [of \<theta>] unfolding B_def by blast
  have "\<bar>\<theta>\<bar> / 2 ^ 24 \<le> 16000 / 2 ^ 24" using assms(1) by (simp add: divide_right_mono)
  moreover have "(16000::real) / 2 ^ 24 + 1 / 2 ^ 21 + 1 / 10 ^ 6 < 1 / 1000" by simp
  ultimately have small: "B + tol < 1 / 1000" unfolding B_def tol_def by linarith
  have a: "\<bar>cos \<theta> - cx\<bar> \<le> tol" "\<bar>sin \<theta> - cy\<bar> \<le> tol"
    using assms(2,3) by (simp_all add: tol_def)
  have "\<bar>fx - cx\<bar> \<le> \<bar>fx - cos \<theta>\<bar> + \<bar>cos \<theta> - cx\<bar>" by linarith
  then have x: "\<bar>fx - cx\<bar> < 1 / 1000" using f(2) a(1) small by linarith
  have "\<bar>fy - cy\<bar> \<le> \<bar>fy - sin \<theta>\<bar> + \<bar>sin \<theta> - cy\<bar>" by linarith
  then have y: "\<bar>fy - cy\<bar> < 1 / 1000" using f(3) a(2) small by linarith
  show ?thesis using x y by (simp only: f(1) Vec2.sel close_to.simps)
qed

text \<open>
  Claim C8, as amended. \<^verbatim>\<open>from_rotation(\<theta>)\<close> stores \<open>\<theta>\<close> narrowed to single
  precision, \<open>\<theta>'\<close>, and its forward vector is \<open>(cos \<theta>', sin \<theta>')\<close>, held in single
  precision: for every angle of magnitude at most \<open>2 ^ 127\<close> each component is
  within \<open>2 ^ -22\<close> of \<open>(cos \<theta>', sin \<theta>')\<close> and within
  \<open>|\<theta>| / 2 ^ 24 + 2 ^ -21\<close> of \<open>(cos \<theta>, sin \<theta>)\<close>. So for \<open>|\<theta>| \<le> 16000\<close> the
  forward vector is \<open>(cos \<theta>, sin \<theta>)\<close> within the tolerance 1e-3; in particular
  \<^verbatim>\<open>from_rotation(0).forward()\<close> is (1,0) and, for an argument within 1e-6 of
  \<open>\<pi>/2\<close> (as \<^verbatim>\<open>math.pi / 2\<close> is), \<^verbatim>\<open>from_rotation(\<pi>/2).forward()\<close> is (0,1), each
  within 1e-3.
\<close>

theorem forward_from_rotation:
  "(\<bar>\<theta>\<bar> \<le> 2 ^ 127 \<longrightarrow>
      (\<exists>\<theta>' fx fy.
         c_float (Finite \<theta>) = Finite \<theta>' \<and>
         \<bar>\<theta>' - \<theta>\<bar> \<le> \<bar>\<theta>\<bar> / 2 ^ 24 + 1 / 2 ^ 150 \<and>
         rotation (from_rotation (Finite \<theta>)) = Finite \<theta>' \<and>
         forward (from_rotation (Finite \<theta>)) = Vec2 (Finite fx) (Finite fy) \<and>
         \<bar>fx - cos \<theta>'\<bar> \<le> 1 / 2 ^ 22 \<and> \<bar>fy - sin \<theta>'\<bar> \<le> 1 / 2 ^ 22 \<and>
         \<bar>fx - cos \<theta>\<bar> \<le> \<bar>\<theta>\<bar> / 2 ^ 24 + 1 / 2 ^ 21 \<and>
         \<bar>fy - sin \<theta>\<bar> \<le> \<bar>\<theta>\<bar> / 2 ^ 24 + 1 / 2 ^ 21)) \<and>
   (\<bar>\<theta>\<bar> \<le> 16000 \<longrightarrow>
      close_to (1 / 1000) (Vec2.x (forward (from_rotation (Finite \<theta>)))) (cos \<theta>) \<and>
      close_to (1 / 1000) (Vec2.y (forward (from_rotation (Finite \<theta>)))) (sin \<theta>)) \<and>
   close_to (1 / 1000) (Vec2.x (forward (from_rotation (Finite 0)))) 1 \<and>
   close_to (1 / 1000) (Vec2.y (forward (from_rotation (Finite 0)))) 0 \<and>
   (\<bar>\<theta> - pi / 2\<bar> \<le> 1 / 10 ^ 6 \<longrightarrow>
      close_to (1 / 1000) (Vec2.x (forward (from_rotation (Finite \<theta>)))) 0 \<and>
      close_to (1 / 1000) (Vec2.y (forward (from_rotation (Finite \<theta>)))) 1)"
proof -
  have general: "\<bar>\<theta>\<bar> \<le> 16000 \<longrightarrow>
      close_to (1 / 1000) (Vec2.x (forward (from_rotation (Finite \<theta>)))) (cos \<theta>) \<and>
      close_to (1 / 1000) (Vec2.y (forward (from_rotation (Finite \<theta>)))) (sin \<theta>)"
    using forward_close [of \<theta> "cos \<theta>" "sin \<theta>"] by simp
  have zero: "close_to (1 / 1000) (Vec2.x (forward (from_rotation (Finite 0)))) 1 \<and>
      close_to (1 / 1000) (Vec2.y (forward (from_rotation (Finite 0)))) 0"
    using forward_close [of 0 1 0] by simp
  have quarter: "close_to (1 / 1000) (Vec2.x (forward (from_rotation (Finite \<theta>)))) 0 \<and>
      close_to (1 / 1000) (Vec2.y (forward (from_rotation (Finite \<theta>)))) 1"
    if near: "\<bar>\<theta> - pi / 2\<bar> \<le> 1 / 10 ^ 6"
  proof -
    have "(1::real) / 10 ^ 6 \<le> 1" by simp
    then have "\<bar>\<theta>\<bar> \<le> 16000" using near pi_less_4 pi_gt_zero by linarith
    moreover have "\<bar>cos \<theta> - 0\<bar> \<le> 1 / 10 ^ 6"
      using cos_lipschitz [of \<theta> "pi / 2"] near by simp
    moreover have "\<bar>sin \<theta> - 1\<bar> \<le> 1 / 10 ^ 6"
      using sin_lipschitz [of \<theta> "pi / 2"] near by simp
    ultimately show ?thesis by (rule forward_close)
  qed
  have bounds: "\<bar>\<theta>\<bar> \<le> 2 ^ 127 \<longrightarrow>
      (\<exists>\<theta>' fx fy.
         c_float (Finite \<theta>) = Finite \<theta>' \<and>
         \<bar>\<theta>' - \<theta>\<bar> \<le> \<bar>\<theta>\<bar> / 2 ^ 24 + 1 / 2 ^ 150 \<and>
         rotation (from_rotation (Finite \<theta>)) = Finite \<theta>' \<and>
         forward (from_rotation (Finite \<theta>)) = Vec2 (Finite fx) (Finite fy) \<and>
         \<bar>fx - cos \<theta>'\<bar> \<le> 1 / 2 ^ 22 \<and> \<bar>fy - sin \<theta>'\<bar> \<le> 1 / 2 ^ 22 \<and>
         \<bar>fx - cos \<theta>\<bar> \<le> \<bar>\<theta>\<bar> / 2 ^ 24 + 1 / 2 ^ 21 \<and>
         \<bar>fy - sin \<theta>\<bar> \<le> \<bar>\<theta>\<bar> / 2 ^ 24 + 1 / 2 ^ 21)"
    using rotation_forward_bounds [of \<theta>] by (rule impI)
  have q: "\<bar>\<theta> - pi / 2\<bar> \<le> 1 / 10 ^ 6 \<longrightarrow>
      close_to (1 / 1000) (Vec2.x (forward (from_rotation (Finite \<theta>)))) 0 \<and>
      close_to (1 / 1000) (Vec2.y (forward (from_rotation (Finite \<theta>)))) 1"
    using quarter by (rule impI)
  show ?thesis
    by (rule conjI [OF bounds conjI [OF general conjI [OF conjunct1 [OF zero]
      conjI [OF conjunct2 [OF zero] q]]]])
qed

theorem forward_from_rotation_witness:
  "\<bar>(0::real)\<bar> \<le> 2 ^ 127 \<and> \<bar>(0::real)\<bar> \<le> 16000 \<and> \<bar>pi / 2 - pi / 2\<bar> \<le> 1 / 10 ^ 6 \<and>
   rotation (from_rotation (Finite 0)) = Finite 0 \<and>
   close_to (1 / 1000) (Vec2.x (forward (from_rotation (Finite 0)))) (cos 0) \<and>
   close_to (1 / 1000) (Vec2.x (forward (from_rotation (Finite (pi / 2))))) 0 \<and>
   close_to (1 / 1000) (Vec2.y (forward (from_rotation (Finite (pi / 2))))) 1"
  using forward_from_rotation [of 0] forward_from_rotation [of "pi / 2"] binary32_int [of 0]
  by (simp add: from_rotation_def goud_transform2d_from_rotation_def)

lemma cos_one_bound: "cos (1::real) < 3 / 4"
proof (rule ccontr)
  assume "\<not> cos (1::real) < 3 / 4"
  then have "(3 / 4)\<^sup>2 \<le> (cos (1::real))\<^sup>2" by (intro power_mono) simp_all
  moreover have "cos (2 * (1::real)) = 2 * (cos 1)\<^sup>2 - 1" by (rule cos_double_cos)
  moreover have "cos (2::real) < 0" by (rule cos_two_less_zero)
  ultimately show False by (simp add: power2_eq_square)
qed

lemma circle_gap: "(cos a - cos b)\<^sup>2 + (sin a - sin b)\<^sup>2 = 2 - 2 * cos (a - (b::real))"
proof -
  have "(cos a - cos b)\<^sup>2 + (sin a - sin b)\<^sup>2 =
      ((sin a)\<^sup>2 + (cos a)\<^sup>2) + ((sin b)\<^sup>2 + (cos b)\<^sup>2) - 2 * (cos a * cos b + sin a * sin b)"
    by (simp add: power2_eq_square algebra_simps)
  then show ?thesis by (simp add: cos_diff)
qed

text \<open>
  Claim C8 as stated fails at \<open>\<theta> = 16777217\<close>: the stored rotation is 16777216, one
  radian off, and the forward vector is not within 1e-3 of
  \<open>(cos 16777217, sin 16777217)\<close>.
\<close>

theorem forward_from_rotation_counterexample:
  "rotation (from_rotation (Finite 16777217)) = Finite 16777216 \<and>
   \<not> (close_to (1 / 1000) (Vec2.x (forward (from_rotation (Finite 16777217)))) (cos 16777217) \<and>
      close_to (1 / 1000) (Vec2.y (forward (from_rotation (Finite 16777217)))) (sin 16777217))"
proof -
  obtain \<theta>' fx fy where b: "c_float (Finite 16777217) = Finite \<theta>'"
    "forward (from_rotation (Finite 16777217)) = Vec2 (Finite fx) (Finite fy)"
    "\<bar>fx - cos \<theta>'\<bar> \<le> 1 / 2 ^ 22" "\<bar>fy - sin \<theta>'\<bar> \<le> 1 / 2 ^ 22"
    using rotation_forward_bounds [of 16777217] by auto
  have t: "\<theta>' = 16777216" using b(1) by (simp add: binary32_tie)
  have rot: "rotation (from_rotation (Finite 16777217)) = Finite 16777216"
    by (simp add: from_rotation_def goud_transform2d_from_rotation_def binary32_tie)
  have "\<not> (\<bar>fx - cos 16777217\<bar> < 1 / 1000 \<and> \<bar>fy - sin 16777217\<bar> < 1 / 1000)"
  proof
    assume c: "\<bar>fx - cos 16777217\<bar> < 1 / 1000 \<and> \<bar>fy - sin 16777217\<bar> < 1 / 1000"
    define dc where "dc = cos (16777216::real) - cos 16777217"
    define ds where "ds = sin (16777216::real) - sin 16777217"
    have "(1::real) / 1000 + 1 / 2 ^ 22 \<le> 1 / 500" by simp
    then have "\<bar>dc\<bar> \<le> 1 / 500" "\<bar>ds\<bar> \<le> 1 / 500"
      using c b(3,4) unfolding t dc_def ds_def by linarith+
    then have "dc\<^sup>2 \<le> (1 / 500)\<^sup>2" "ds\<^sup>2 \<le> (1 / 500)\<^sup>2"
      using power_mono [of "\<bar>dc\<bar>" "1 / 500" 2] power_mono [of "\<bar>ds\<bar>" "1 / 500" 2] by simp_all
    moreover have "dc\<^sup>2 + ds\<^sup>2 = 2 - 2 * cos (16777216 - 16777217)"
      unfolding dc_def ds_def by (rule circle_gap)
    moreover have "cos (16777216 - 16777217 :: real) = cos 1"
      using cos_minus [of "1::real"] by simp
    ultimately show False using cos_one_bound by (simp add: power2_eq_square)
  qed
  then show ?thesis using rot by (simp add: b(2))
qed

section \<open>Sprite: builder and setter\<close>

text \<open>
  Claim C6. \<^verbatim>\<open>s.with_color(r, g, b, a)\<close> returns a new sprite object and leaves the
  store as it was at every existing object, the receiver included: every field of
  \<open>s\<close>, in particular its colour, is unchanged, and the new sprite has the colour
  (r, g, b, a). Assigning through the colour setter changes the colour of the receiver
  itself (and of no other object), and the structure it leaves in the receiver is
  field for field the one the builder returns.
\<close>

theorem with_color_leaves_receiver:
  assumes "self < length store"
  shows "case with_color store self r g b a of
           (new, store') \<Rightarrow>
             new \<noteq> self \<and> new < length store' \<and>
             (\<forall>k < length store. store' ! k = store ! k) \<and>
             store' ! self = store ! self \<and>
             color store' self = color store self \<and>
             color store' new = Color r g b a \<and>
             color (color_setter store self (Color r g b a)) self = Color r g b a \<and>
             (\<forall>k < length store. k \<noteq> self \<longrightarrow>
                color_setter store self (Color r g b a) ! k = store ! k) \<and>
             store' ! new = color_setter store self (Color r g b a) ! self"
  using assms
  by (simp add: with_color_def color_def goud_sprite_with_color_def
      goud_sprite_set_color_def nth_append)

theorem with_color_leaves_receiver_witness:
  "(0::nat) < length [white_sprite] \<and>
   fst (with_color [white_sprite] 0 1 0 0 1) = 1 \<and>
   color (snd (with_color [white_sprite] 0 1 0 0 1)) 0 = Color 1 1 1 1 \<and>
   color (snd (with_color [white_sprite] 0 1 0 0 1)) 1 = Color 1 0 0 1 \<and>
   color (color_setter [white_sprite] 0 (Color 1 0 0 1)) 0 = Color 1 0 0 1"
  using with_color_leaves_receiver [of 0 "[white_sprite]" 1 0 0 1]
  by (simp add: with_color_def color_def white_sprite_def split: prod.splits)

section \<open>Frame loop: delta time\<close>

text \<open>
  Claim C9. \<^verbatim>\<open>begin_frame()\<close> returns the wall time elapsed since the previous
  \<^verbatim>\<open>begin_frame()\<close> (the frame between them ended by \<^verbatim>\<open>end_frame\<close>), that is the
  time since the backend's last poll, and after it returns the property
  \<^verbatim>\<open>delta_time\<close> equals the value it returned.
\<close>

theorem begin_frame_delta_time:
  "fst (begin_frame t2 (end_frame (snd (begin_frame t1 st)))) = t2 - t1 \<and>
   delta_time (fst (snd (begin_frame t2 st))) = fst (begin_frame t2 st) \<and>
   fst (begin_frame t2 st) = t2 - last_poll (snd st) \<and>
   last_poll (snd (snd (begin_frame t2 st))) = t2 \<and>
   last_poll (snd (end_frame st)) = last_poll (snd st)"
  by (cases st)
    (simp add: begin_frame_def end_frame_def goud_window_poll_events_def delta_time_def
      render_call_def Let_def)

end
